theory Spec2Isabelle
  imports Main "HOL-Library.AList"
begin

section \<open>Credential broker (api.ts): data model\<close>

text \<open>
  JavaScript strings are modelled as \<^typ>\<open>string\<close> holding the UTF-8 bytes of the text.
  Objects used as dictionaries with string keys whose key order is observable
  (\<open>Object.keys\<close>) are association lists, updated in place or appended at the end, as
  property assignment does for keys such as e-mail addresses (keys that are array
  indices, which the language lists first, and \<open>__proto__\<close> are not addresses). The
  \<open>Map\<close> caches are never iterated and are partial maps.
\<close>

definition ALLOWED_ACCOUNTS :: "string list" where
  "ALLOWED_ACCOUNTS =
     [''nick@outliyr.com'', ''outliyraffiliates@gmail.com'', ''iamnickurban@gmail.com'']"

definition isAllowedAccount :: "string \<Rightarrow> bool" where
  "isAllowedAccount account \<longleftrightarrow> account \<in> set ALLOWED_ACCOUNTS"

definition SCOPES :: "string list" where
  "SCOPES =
     [''https://mail.google.com/'',
      ''https://www.googleapis.com/auth/calendar'',
      ''https://www.googleapis.com/auth/drive'',
      ''https://www.googleapis.com/auth/contacts'']"

definition WORKSPACE_ACCOUNT :: string where
  "WORKSPACE_ACCOUNT = ''nick@outliyr.com''"

record TokenConfig =
  client_id :: string
  client_secret :: string
  refresh_token :: string

text \<open>
  The two credential objects of google-auth-library, as the values \<open>auth\<close> constructs:
  \<open>new JWT({keyFile, scopes, subject})\<close> and \<open>new OAuth2Client(client_id, client_secret)\<close>
  followed by \<open>setCredentials({refresh_token})\<close>.
\<close>

datatype auth_client =
    JWT (jwt_keyFile: string) (jwt_scopes: "string list") (jwt_subject: string)
  | OAuth2Client (oauth_client_id: string) (oauth_client_secret: string)
      (oauth_refresh_token: string)

datatype service_kind = Gmail | Calendar | Drive | People

text \<open>A service client as built by \<open>google.gmail({version, auth})\<close> and its three siblings.\<close>

datatype service_client =
  ServiceClient (kind: service_kind) (version: string) (client_auth: auth_client)

text \<open>
  JavaScript values as far as the code inspects them. Numbers are the integers (HTTP
  status codes); \<open>JObj\<close> lists own properties in order.
\<close>

datatype jsval =
    JUndefined
  | JNull
  | JBool bool
  | JNum int
  | JStr string
  | JArr "jsval list"
  | JObj "(string \<times> jsval) list"

text \<open>
  Thrown values. \<open>ErrorObj m r\<close> is an \<open>Error\<close> instance (of any subclass) with message
  \<open>m\<close>; \<open>r\<close> is \<open>Some v\<close> when it has a \<open>response\<close> property of value \<open>v\<close>, as the
  errors of the HTTP client do. \<open>Thrown v\<close> is any other thrown value.
\<close>

datatype js_error =
    ErrorObj (message: string) (response: "jsval option")
  | Thrown jsval

text \<open>The token set an authorization-code exchange returns; \<open>None\<close> stands for a
  \<open>refresh_token\<close> that is \<open>undefined\<close> or \<open>null\<close>.\<close>

record Credentials =
  cred_refresh_token :: "string option"
  cred_access_token :: "string option"

record auth_url_opts =
  access_type :: string
  scope :: "string list"
  prompt :: string
  login_hint :: string
  state :: jsval

text \<open>Calls that leave the process, in the order the code makes them.\<close>

datatype io_call =
    ReadFileSync string
  | MkdirSync string
  | WriteFileSync string string
  | RenameSync string string
  | GetToken string
  | GetProfile Credentials

text \<open>
  What the program cannot decide: the outcome of the file-system and network calls, and
  the platform's library functions. \<open>parse_tokens\<close> and \<open>stringify_tokens\<close> are
  \<open>JSON.parse\<close> and \<open>JSON.stringify(_, null, 2)\<close> at the declared type of the token file,
  \<open>Record<string, TokenConfig>\<close>. \<open>None\<close> from \<open>mkdirSync\<close> and \<open>writeFileSync\<close> is a
  normal return. \<open>getToken\<close> is \<open>OAuth2Client.getToken\<close> and \<open>getProfile\<close> is
  \<open>gmail.users.getProfile({userId: "me"})\<close> followed by \<open>.data.emailAddress!\<close>, both on
  a client built from the given client id, client secret and redirect URI; the
  non-null assertion of the source is the type of the result.
\<close>

record platform =
  readFileSync :: "string \<Rightarrow> js_error + string"
  mkdirSync :: "string \<Rightarrow> js_error option"
  writeFileSync :: "string \<Rightarrow> string \<Rightarrow> js_error option"
  parse_tokens :: "string \<Rightarrow> js_error + (string \<times> TokenConfig) list"
  stringify_tokens :: "(string \<times> TokenConfig) list \<Rightarrow> string"
  JSON_parse :: "string \<Rightarrow> js_error + jsval"
  JSON_stringify :: "jsval \<Rightarrow> jsval"
  encodeURIComponent :: "string \<Rightarrow> string"
  generateAuthUrl :: "string \<Rightarrow> string \<Rightarrow> string \<Rightarrow> auth_url_opts \<Rightarrow> string"
  getToken :: "string \<Rightarrow> string \<Rightarrow> string \<Rightarrow> string \<Rightarrow> js_error + Credentials"
  getProfile :: "string \<Rightarrow> string \<Rightarrow> string \<Rightarrow> Credentials \<Rightarrow> js_error + string"

record WorkspaceAPI =
  keyFile :: string
  tokensFile :: string
  tokens :: "(string \<times> TokenConfig) list"
  authClients :: "string \<rightharpoonup> auth_client"
  gmailClients :: "string \<rightharpoonup> service_client"
  calendarClients :: "string \<rightharpoonup> service_client"
  driveClients :: "string \<rightharpoonup> service_client"
  peopleClients :: "string \<rightharpoonup> service_client"

section \<open>Credential broker: operations\<close>

definition clear_caches :: "WorkspaceAPI \<Rightarrow> WorkspaceAPI" where
  "clear_caches s =
     s\<lparr>authClients := Map.empty, gmailClients := Map.empty, calendarClients := Map.empty,
       driveClients := Map.empty, peopleClients := Map.empty\<rparr>"

text \<open>
  \<open>loadTokens\<close>: the five \<open>clear()\<close> calls are inside the \<open>try\<close>, after the read and the
  parse; the \<open>catch\<close> only resets the token map.
\<close>

definition loadTokens :: "platform \<Rightarrow> WorkspaceAPI \<Rightarrow> WorkspaceAPI \<times> io_call list" where
  "loadTokens P s =
     (case readFileSync P (tokensFile s) of
        Inl e \<Rightarrow> (s\<lparr>tokens := []\<rparr>, [ReadFileSync (tokensFile s)])
      | Inr raw \<Rightarrow>
          (case parse_tokens P raw of
             Inl e \<Rightarrow> (s\<lparr>tokens := []\<rparr>, [ReadFileSync (tokensFile s)])
           | Inr t \<Rightarrow> (clear_caches (s\<lparr>tokens := t\<rparr>), [ReadFileSync (tokensFile s)])))"

definition new_WorkspaceAPI :: "platform \<Rightarrow> string \<Rightarrow> string \<Rightarrow> WorkspaceAPI \<times> io_call list" where
  "new_WorkspaceAPI P kf tf =
     loadTokens P
       \<lparr>keyFile = kf, tokensFile = tf, tokens = [], authClients = Map.empty,
        gmailClients = Map.empty, calendarClients = Map.empty, driveClients = Map.empty,
        peopleClients = Map.empty\<rparr>"

fun lastIndexOf_from :: "char \<Rightarrow> string \<Rightarrow> nat \<Rightarrow> int \<Rightarrow> int" where
  "lastIndexOf_from c [] i found = found"
| "lastIndexOf_from c (x # xs) i found =
     lastIndexOf_from c xs (Suc i) (if x = c then int i else found)"

definition lastIndexOf :: "string \<Rightarrow> char \<Rightarrow> int" where
  "lastIndexOf str c = lastIndexOf_from c str 0 (- 1)"

text \<open>\<open>String.prototype.substring\<close>: both indices are clamped to the string and swapped
  when out of order.\<close>

definition substring :: "string \<Rightarrow> int \<Rightarrow> int \<Rightarrow> string" where
  "substring str a b =
     (let n = int (length str);
          a' = max 0 (min a n);
          b' = max 0 (min b n);
          lo = min a' b';
          hi = max a' b'
      in take (nat (hi - lo)) (drop (nat lo) str))"

definition delete_caches :: "string \<Rightarrow> WorkspaceAPI \<Rightarrow> WorkspaceAPI" where
  "delete_caches email s =
     s\<lparr>authClients := (authClients s)(email := None),
       gmailClients := (gmailClients s)(email := None),
       calendarClients := (calendarClients s)(email := None),
       driveClients := (driveClients s)(email := None),
       peopleClients := (peopleClients s)(email := None)\<rparr>"

text \<open>
  \<open>saveToken\<close>: the in-memory map is updated first; \<open>mkdirSync\<close> and \<open>writeFileSync\<close>
  may throw, and then the five \<open>delete\<close> calls after them do not run.
\<close>

definition saveToken ::
  "platform \<Rightarrow> WorkspaceAPI \<Rightarrow> string \<Rightarrow> TokenConfig
     \<Rightarrow> (js_error + unit) \<times> WorkspaceAPI \<times> io_call list" where
  "saveToken P s email token =
     (let s1 = s\<lparr>tokens := AList.update email token (tokens s)\<rparr>;
          dir = substring (tokensFile s1) 0 (lastIndexOf (tokensFile s1) CHR ''/'');
          mk = (if dir \<noteq> [] then [MkdirSync dir] else []);
          content = stringify_tokens P (tokens s1)
      in case (if dir \<noteq> [] then mkdirSync P dir else None) of
           Some e \<Rightarrow> (Inl e, s1, mk)
         | None \<Rightarrow>
             (case writeFileSync P (tokensFile s1) content of
                Some e \<Rightarrow> (Inl e, s1, mk @ [WriteFileSync (tokensFile s1) content])
              | None \<Rightarrow>
                  (Inr (), delete_caches email s1,
                   mk @ [WriteFileSync (tokensFile s1) content])))"

definition getConfiguredAccounts :: "WorkspaceAPI \<Rightarrow> string list" where
  "getConfiguredAccounts s =
     foldl (\<lambda>accounts email. if email \<in> set accounts then accounts else accounts @ [email])
       [WORKSPACE_ACCOUNT] (map fst (tokens s))"

definition auth :: "WorkspaceAPI \<Rightarrow> string \<Rightarrow> (js_error + auth_client) \<times> WorkspaceAPI" where
  "auth s account =
     (if \<not> isAllowedAccount account then (Inl (ErrorObj (''Account not allowed: '' @ account) None), s)
      else case authClients s account of
        Some client \<Rightarrow> (Inr client, s)
      | None \<Rightarrow>
          if account = WORKSPACE_ACCOUNT then
            (let client = JWT (keyFile s) SCOPES account
             in (Inr client, s\<lparr>authClients := (authClients s)(account \<mapsto> client)\<rparr>))
          else
            (case map_of (tokens s) account of
               None \<Rightarrow>
                 (Inl (ErrorObj (''No refresh token for '' @ account
                        @ ''. Run the token generation script: npm run generate-token'') None), s)
             | Some tokenConfig \<Rightarrow>
                 (let client = OAuth2Client (client_id tokenConfig) (client_secret tokenConfig)
                                 (refresh_token tokenConfig)
                  in (Inr client, s\<lparr>authClients := (authClients s)(account \<mapsto> client)\<rparr>))))"

definition gmail :: "WorkspaceAPI \<Rightarrow> string \<Rightarrow> (js_error + service_client) \<times> WorkspaceAPI" where
  "gmail s account =
     (case gmailClients s account of
        Some client \<Rightarrow> (Inr client, s)
      | None \<Rightarrow>
          (case auth s account of
             (Inl e, s') \<Rightarrow> (Inl e, s')
           | (Inr a, s') \<Rightarrow>
               (let client = ServiceClient Gmail ''v1'' a
                in (Inr client, s'\<lparr>gmailClients := (gmailClients s')(account \<mapsto> client)\<rparr>))))"

definition calendar :: "WorkspaceAPI \<Rightarrow> string \<Rightarrow> (js_error + service_client) \<times> WorkspaceAPI" where
  "calendar s account =
     (case calendarClients s account of
        Some client \<Rightarrow> (Inr client, s)
      | None \<Rightarrow>
          (case auth s account of
             (Inl e, s') \<Rightarrow> (Inl e, s')
           | (Inr a, s') \<Rightarrow>
               (let client = ServiceClient Calendar ''v3'' a
                in (Inr client, s'\<lparr>calendarClients := (calendarClients s')(account \<mapsto> client)\<rparr>))))"

definition drive :: "WorkspaceAPI \<Rightarrow> string \<Rightarrow> (js_error + service_client) \<times> WorkspaceAPI" where
  "drive s account =
     (case driveClients s account of
        Some client \<Rightarrow> (Inr client, s)
      | None \<Rightarrow>
          (case auth s account of
             (Inl e, s') \<Rightarrow> (Inl e, s')
           | (Inr a, s') \<Rightarrow>
               (let client = ServiceClient Drive ''v3'' a
                in (Inr client, s'\<lparr>driveClients := (driveClients s')(account \<mapsto> client)\<rparr>))))"

definition people :: "WorkspaceAPI \<Rightarrow> string \<Rightarrow> (js_error + service_client) \<times> WorkspaceAPI" where
  "people s account =
     (case peopleClients s account of
        Some client \<Rightarrow> (Inr client, s)
      | None \<Rightarrow>
          (case auth s account of
             (Inl e, s') \<Rightarrow> (Inl e, s')
           | (Inr a, s') \<Rightarrow>
               (let client = ServiceClient People ''v1'' a
                in (Inr client, s'\<lparr>peopleClients := (peopleClients s')(account \<mapsto> client)\<rparr>))))"

text \<open>
  The states a broker can be in: built by the constructor, then changed by its public
  methods, each under any behaviour of the file system. \<open>auth\<close> is private and runs only
  inside the four service getters; \<open>getConfiguredAccounts\<close> changes nothing.
\<close>

inductive reachable :: "WorkspaceAPI \<Rightarrow> bool" where
  r_new: "reachable (fst (new_WorkspaceAPI P kf tf))"
| r_load: "reachable s \<Longrightarrow> reachable (fst (loadTokens P s))"
| r_save: "reachable s \<Longrightarrow> reachable (fst (snd (saveToken P s email token)))"
| r_gmail: "reachable s \<Longrightarrow> reachable (snd (gmail s account))"
| r_calendar: "reachable s \<Longrightarrow> reachable (snd (calendar s account))"
| r_drive: "reachable s \<Longrightarrow> reachable (snd (drive s account))"
| r_people: "reachable s \<Longrightarrow> reachable (snd (people s account))"

definition cache_keys_allowed :: "WorkspaceAPI \<Rightarrow> bool" where
  "cache_keys_allowed s \<longleftrightarrow>
     dom (authClients s) \<subseteq> set ALLOWED_ACCOUNTS \<and>
     dom (gmailClients s) \<subseteq> set ALLOWED_ACCOUNTS \<and>
     dom (calendarClients s) \<subseteq> set ALLOWED_ACCOUNTS \<and>
     dom (driveClients s) \<subseteq> set ALLOWED_ACCOUNTS \<and>
     dom (peopleClients s) \<subseteq> set ALLOWED_ACCOUNTS"

section \<open>JavaScript value operations\<close>

text \<open>
  Reading a property of a value that is neither \<open>undefined\<close> nor \<open>null\<close>. Only the
  property names \<open>status\<close>, \<open>data\<close>, \<open>error\<close>, \<open>message\<close>, \<open>token\<close> and \<open>response\<close>
  are read by the code; no prototype of a primitive or an array defines them.
\<close>

fun get_prop :: "jsval \<Rightarrow> string \<Rightarrow> jsval" where
  "get_prop (JObj kvs) k = (case map_of kvs k of Some v \<Rightarrow> v | None \<Rightarrow> JUndefined)"
| "get_prop v k = JUndefined"

definition nullish :: "jsval \<Rightarrow> bool" where
  "nullish v \<longleftrightarrow> v = JUndefined \<or> v = JNull"

text \<open>Optional chaining \<open>v?.k\<close>.\<close>

definition opt_chain :: "jsval \<Rightarrow> string \<Rightarrow> jsval" where
  "opt_chain v k = (if nullish v then JUndefined else get_prop v k)"

fun truthy :: "jsval \<Rightarrow> bool" where
  "truthy JUndefined = False"
| "truthy JNull = False"
| "truthy (JBool b) = b"
| "truthy (JNum n) = (n \<noteq> 0)"
| "truthy (JStr str) = (str \<noteq> [])"
| "truthy (JArr xs) = True"
| "truthy (JObj kvs) = True"

text \<open>Truthiness of a value typed \<open>string | undefined\<close>.\<close>

fun truthy_str :: "string option \<Rightarrow> bool" where
  "truthy_str None = False"
| "truthy_str (Some str) = (str \<noteq> [])"

fun string_of_nat :: "nat \<Rightarrow> string" where
  "string_of_nat n =
     (if n < 10 then [char_of (48 + n)]
      else string_of_nat (n div 10) @ [char_of (48 + n mod 10)])"

declare string_of_nat.simps [simp del]

definition string_of_int :: "int \<Rightarrow> string" where
  "string_of_int i = (if i < 0 then CHR ''-'' # string_of_nat (nat (- i)) else string_of_nat (nat i))"

fun join :: "string \<Rightarrow> string list \<Rightarrow> string" where
  "join sep [] = []"
| "join sep [x] = x"
| "join sep (x # y # ys) = x @ sep @ join sep (y # ys)"

text \<open>\<open>String(v)\<close>, which a template literal applies to each interpolated value.\<close>

fun to_String :: "jsval \<Rightarrow> string" where
  "to_String JUndefined = ''undefined''"
| "to_String JNull = ''null''"
| "to_String (JBool b) = (if b then ''true'' else ''false'')"
| "to_String (JNum n) = string_of_int n"
| "to_String (JStr str) = str"
| "to_String (JArr xs) = join '','' (map (\<lambda>x. if nullish x then [] else to_String x) xs)"
| "to_String (JObj kvs) = ''[object Object]''"

text \<open>\<open>String.prototype.includes\<close>.\<close>

fun includes_str :: "string \<Rightarrow> string \<Rightarrow> bool" where
  "includes_str [] sub = (sub = [])"
| "includes_str (x # xs) sub = (take (length sub) (x # xs) = sub \<or> includes_str xs sub)"

section \<open>Error translator (api.ts, tool.ts)\<close>

text \<open>The value of \<open>error.response\<close> when \<open>"response" in error\<close> holds of an object.\<close>

fun response_in :: "js_error \<Rightarrow> jsval option" where
  "response_in (ErrorObj m r) = r"
| "response_in (Thrown (JObj kvs)) = map_of kvs ''response''"
| "response_in (Thrown v) = None"

definition em_dash :: string where
  "em_dash = [CHR 0xE2, CHR 0x80, CHR 0x94]"

definition handleApiError :: "platform \<Rightarrow> js_error \<Rightarrow> string" where
  "handleApiError P error =
     (case response_in error of
        Some resp \<Rightarrow>
          (let status = opt_chain resp ''status'';
               data = opt_chain resp ''data'';
               m = opt_chain (opt_chain data ''error'') ''message'';
               msg = (if truthy m then m
                      else (case data of JStr str \<Rightarrow> data | _ \<Rightarrow> JSON_stringify P data))
           in if status = JNum 400 then ''Bad request: '' @ to_String msg
              else if status = JNum 401 then
                ''Auth failed '' @ em_dash @ '' check credentials. For nick@outliyr.com: verify domain-wide delegation. For Gmail accounts: refresh token may be revoked, re-run generate-token. ''
                @ to_String msg
              else if status = JNum 403 then
                ''Forbidden '' @ em_dash @ '' ensure the required API scope is granted. ''
                @ to_String msg
              else if status = JNum 404 then ''Not found: '' @ to_String msg
              else if status = JNum 429 then ''Rate limited. Wait and try again.''
              else ''Google API error '' @ to_String status @ '': '' @ to_String msg)
      | None \<Rightarrow>
          (case error of
             ErrorObj m r \<Rightarrow>
               if includes_str m ''invalid_grant'' then
                 ''Refresh token revoked or expired. Re-run: npm run generate-token''
               else if includes_str m ''No refresh token'' then
                 m @ ''. Visit /setup on the server to authorize.''
               else ''Error: '' @ m
           | Thrown v \<Rightarrow> ''Unexpected error: '' @ to_String v))"

text \<open>The fixed text of the 401 translation.\<close>

definition auth_failed_text :: string where
  "auth_failed_text =
     ''Auth failed '' @ em_dash @ '' check credentials. For nick@outliyr.com: verify domain-wide delegation. For Gmail accounts: refresh token may be revoked, re-run generate-token. ''"

text \<open>The upstream message \<open>handleApiError\<close> appends: \<open>data?.error?.message\<close> when truthy,
  else the body itself when a string, else its JSON text.\<close>

definition upstream_msg :: "platform \<Rightarrow> jsval \<Rightarrow> jsval" where
  "upstream_msg P resp =
     (let data = opt_chain resp ''data'';
          m = opt_chain (opt_chain data ''error'') ''message''
      in if truthy m then m else (case data of JStr str \<Rightarrow> data | _ \<Rightarrow> JSON_stringify P data))"

record ToolParams =
  params_account :: string
  params_mode :: string

text \<open>
  The four mode handlers (gmail.ts, calendar.ts, drive.ts, contacts.ts) obtain a service
  client for \<open>params.account\<close> and then talk to the network; \<open>toolHandler\<close> only needs
  what they return or throw.
\<close>

record mode_handlers =
  handleGmail :: "WorkspaceAPI \<Rightarrow> ToolParams \<Rightarrow> (js_error + jsval) \<times> WorkspaceAPI"
  handleCalendar :: "WorkspaceAPI \<Rightarrow> ToolParams \<Rightarrow> (js_error + jsval) \<times> WorkspaceAPI"
  handleDrive :: "WorkspaceAPI \<Rightarrow> ToolParams \<Rightarrow> (js_error + jsval) \<times> WorkspaceAPI"
  handleContacts :: "WorkspaceAPI \<Rightarrow> ToolParams \<Rightarrow> (js_error + jsval) \<times> WorkspaceAPI"

text \<open>The \<open>switch (params.mode)\<close> of \<open>toolHandler\<close>; \<open>None\<close> is its \<open>default\<close> branch.\<close>

definition mode_switch ::
  "mode_handlers \<Rightarrow> string
     \<Rightarrow> (WorkspaceAPI \<Rightarrow> ToolParams \<Rightarrow> (js_error + jsval) \<times> WorkspaceAPI) option" where
  "mode_switch H m =
     (if m = ''gmail'' then Some (handleGmail H)
      else if m = ''calendar'' then Some (handleCalendar H)
      else if m = ''drive'' then Some (handleDrive H)
      else if m = ''contacts'' then Some (handleContacts H)
      else None)"

definition toolHandler ::
  "platform \<Rightarrow> mode_handlers \<Rightarrow> WorkspaceAPI \<Rightarrow> ToolParams \<Rightarrow> jsval \<times> WorkspaceAPI" where
  "toolHandler P H api params =
     (case mode_switch H (params_mode params) of
        None \<Rightarrow>
          (JSON_stringify P
             (JObj [(''error'', JStr (''Unknown mode: '' @ params_mode params))]), api)
      | Some h \<Rightarrow>
          (case h api params of
             (Inr result, api') \<Rightarrow> (result, api')
           | (Inl err, api') \<Rightarrow>
               (JSON_stringify P (JObj [(''error'', JStr (handleApiError P err))]), api')))"

section \<open>Authorization flow (index.ts)\<close>

text \<open>
  The values the two route handlers close over. \<open>setupToken\<close> is
  \<open>process.env.SETUP_TOKEN\<close>, \<open>None\<close> when unset. The routes are registered only when
  both \<open>googleClientId\<close> and \<open>googleClientSecret\<close> are non-empty.
\<close>

record config =
  setupToken :: "string option"
  googleClientId :: string
  googleClientSecret :: string
  publicUrl :: string

definition redirectUri :: "config \<Rightarrow> string" where
  "redirectUri C = publicUrl C @ ''/oauth2callback''"

text \<open>
  Responses: \<open>res.status(n).json(v)\<close>, \<open>res.status(n).send(body)\<close> (status 200 when not
  set) and \<open>res.redirect(url)\<close>, which answers 302.
\<close>

datatype http_response =
    Json nat jsval
  | Send nat string
  | Redirect string

fun status_of :: "http_response \<Rightarrow> nat" where
  "status_of (Json n v) = n"
| "status_of (Send n body) = n"
| "status_of (Redirect url) = 302"

text \<open>
  What an \<open>async\<close> handler ends with: a response, or a rejected promise when it throws
  outside its \<open>try\<close> blocks, in which case the handler has sent nothing.
\<close>

datatype handler_outcome =
    Responded http_response
  | Rejected js_error

text \<open>Query parameters, each read with \<open>req.query.x as string\<close>: absent or a string.\<close>

record setup_query =
  q_token :: "string option"
  q_account :: "string option"

record callback_query =
  q_error :: "string option"
  q_code :: "string option"
  q_state :: "string option"

definition nl :: "nat \<Rightarrow> string" where
  "nl n = CHR 0x0A # replicate n CHR '' ''"

definition li_items :: "string list \<Rightarrow> string" where
  "li_items xs = join [] (map (\<lambda>a. ''<li>'' @ a @ ''</li>'') xs)"

definition setup_accounts :: "string list" where
  "setup_accounts = [''outliyraffiliates@gmail.com'', ''iamnickurban@gmail.com'']"

definition setup_page :: "platform \<Rightarrow> string \<Rightarrow> string list \<Rightarrow> string" where
  \<open>setup_page P tok configured =
     ''<!DOCTYPE html><html><body>'' @ nl 12
     @ ''<h1>Google Workspace MCP '' @ em_dash @ '' Account Setup</h1>'' @ nl 12
     @ ''<h2>Configured accounts:</h2>'' @ nl 12
     @ ''<ul>'' @ li_items configured @ ''</ul>'' @ nl 12
     @ ''<h2>Authorize Gmail accounts:</h2>'' @ nl 12
     @ ''<ul>''
     @ join [] (map (\<lambda>a. ''<li><a href="/setup?token='' @ encodeURIComponent P tok
                         @ ''&account='' @ encodeURIComponent P a @ ''">'' @ a @ ''</a></li>'')
                  setup_accounts)
     @ ''</ul>'' @ nl 10
     @ ''</body></html>''\<close>

definition setup_handler ::
  "platform \<Rightarrow> config \<Rightarrow> WorkspaceAPI \<Rightarrow> setup_query \<Rightarrow> http_response" where
  "setup_handler P C api q =
     (case setupToken C of
        None \<Rightarrow> Json 403 (JObj [(''error'', JStr ''Invalid or missing setup token'')])
      | Some tok \<Rightarrow>
          if tok = [] \<or> q_token q \<noteq> Some tok then
            Json 403 (JObj [(''error'', JStr ''Invalid or missing setup token'')])
          else
            (case q_account q of
               None \<Rightarrow> Send 200 (setup_page P tok (getConfiguredAccounts api))
             | Some acc \<Rightarrow>
                 if acc = [] then Send 200 (setup_page P tok (getConfiguredAccounts api))
                 else
                   Redirect
                     (generateAuthUrl P (googleClientId C) (googleClientSecret C) (redirectUri C)
                        \<lparr>access_type = ''offline'', scope = SCOPES, prompt = ''consent'',
                         login_hint = acc,
                         state = JSON_stringify P
                                   (JObj [(''account'', JStr acc), (''token'', JStr tok)])\<rparr>)))"

definition no_refresh_token_page :: string where
  \<open>no_refresh_token_page =
     ''<h1>No refresh token received</h1>'' @ nl 15
     @ ''<p>This usually means the app already has access.'' @ nl 15
     @ ''Revoke it at <a href="https://myaccount.google.com/permissions">Google Account Permissions</a>,''
     @ nl 15
     @ ''then try again.</p>''\<close>

definition success_page :: "platform \<Rightarrow> string \<Rightarrow> string \<Rightarrow> string list \<Rightarrow> string" where
  \<open>success_page P tok email configured =
     ''<h1>Success!</h1>'' @ nl 13
     @ ''<p>Token saved for: <strong>'' @ email @ ''</strong></p>'' @ nl 13
     @ ''<h2>All configured accounts:</h2>'' @ nl 13
     @ ''<ul>'' @ li_items configured @ ''</ul>'' @ nl 13
     @ ''<p><a href="/setup?token='' @ encodeURIComponent P tok @ ''">Back to setup</a></p>''\<close>

text \<open>
  The \<open>catch (err: any)\<close> of the callback: it answers 500 with \<open>err.message\<close>; reading
  \<open>.message\<close> of a thrown \<open>undefined\<close> or \<open>null\<close> throws in turn.
\<close>

definition TypeError_reading :: "string \<Rightarrow> string \<Rightarrow> js_error" where
  "TypeError_reading v k =
     ErrorObj (''Cannot read properties of '' @ v @ '' (reading '' @ [CHR 0x27] @ k @ [CHR 0x27] @ '')'')
       None"

definition token_exchange_failed ::
  "js_error \<Rightarrow> handler_outcome" where
  "token_exchange_failed err =
     (case err of
        ErrorObj m r \<Rightarrow> Responded (Send 500 (''<h1>Token exchange failed</h1><p>'' @ m @ ''</p>''))
      | Thrown v \<Rightarrow>
          if nullish v then Rejected (TypeError_reading (to_String v) ''message'')
          else Responded (Send 500 (''<h1>Token exchange failed</h1><p>''
                            @ to_String (get_prop v ''message'') @ ''</p>'')))"

text \<open>
  The part of the callback inside \<open>try\<close>, entered only after the state check:
  exchange the code, require a refresh token, ask the authorized account for its own
  address and store the record under that address.
\<close>

definition exchange_and_save ::
  "platform \<Rightarrow> config \<Rightarrow> WorkspaceAPI \<Rightarrow> string \<Rightarrow> string
     \<Rightarrow> handler_outcome \<times> WorkspaceAPI \<times> io_call list" where
  "exchange_and_save P C api tok code =
     (case getToken P (googleClientId C) (googleClientSecret C) (redirectUri C) code of
        Inl err \<Rightarrow> (token_exchange_failed err, api, [GetToken code])
      | Inr creds \<Rightarrow>
          if \<not> truthy_str (cred_refresh_token creds) then
            (Responded (Send 400 no_refresh_token_page), api, [GetToken code])
          else
            (case getProfile P (googleClientId C) (googleClientSecret C) (redirectUri C) creds of
               Inl err \<Rightarrow> (token_exchange_failed err, api, [GetToken code, GetProfile creds])
             | Inr email \<Rightarrow>
                 (case saveToken P api email
                         \<lparr>client_id = googleClientId C, client_secret = googleClientSecret C,
                          refresh_token = (case cred_refresh_token creds of
                                             Some rt \<Rightarrow> rt | None \<Rightarrow> [])\<rparr> of
                    (Inl err, api', io) \<Rightarrow>
                      (token_exchange_failed err, api', [GetToken code, GetProfile creds] @ io)
                  | (Inr u, api', io) \<Rightarrow>
                      (Responded (Send 200
                         (success_page P tok email (getConfiguredAccounts api'))),
                       api', [GetToken code, GetProfile creds] @ io))))"

definition oauth2callback_handler ::
  "platform \<Rightarrow> config \<Rightarrow> WorkspaceAPI \<Rightarrow> callback_query
     \<Rightarrow> handler_outcome \<times> WorkspaceAPI \<times> io_call list" where
  "oauth2callback_handler P C api q =
     (case (if truthy_str (q_error q) then q_error q else None) of
        Some err \<Rightarrow>
          (Responded (Send 400 (''<h1>Authorization failed</h1><p>'' @ err @ ''</p>'')), api, [])
      | None \<Rightarrow>
          (case (if truthy_str (q_code q) \<and> truthy_str (q_state q)
                 then (q_code q, q_state q) else (None, None)) of
             (Some code, Some stateRaw) \<Rightarrow>
               (case JSON_parse P stateRaw of
                  Inl e \<Rightarrow> (Responded (Send 400 ''<h1>Invalid state</h1>''), api, [])
                | Inr st \<Rightarrow>
                    (case setupToken C of
                       None \<Rightarrow> (Responded (Send 403 ''<h1>Invalid setup token</h1>''), api, [])
                     | Some tok \<Rightarrow>
                         if tok = [] then
                           (Responded (Send 403 ''<h1>Invalid setup token</h1>''), api, [])
                         else if nullish st then
                           (Rejected (TypeError_reading (to_String st) ''token''), api, [])
                         else if get_prop st ''token'' \<noteq> JStr tok then
                           (Responded (Send 403 ''<h1>Invalid setup token</h1>''), api, [])
                         else exchange_and_save P C api tok code))
           | _ \<Rightarrow> (Responded (Send 400 ''<h1>Missing code or state</h1>''), api, [])))"

section \<open>Notions the statements about the callback use\<close>

text \<open>
  The specification's condition for the callback to go on: the state parses and the
  secret it embeds, its \<open>token\<close> property, is the configured setup secret.
\<close>

definition spec_state_secret_matches :: "platform \<Rightarrow> config \<Rightarrow> callback_query \<Rightarrow> bool" where
  "spec_state_secret_matches P C q =
     (case q_state q of
        None \<Rightarrow> False
      | Some raw \<Rightarrow>
          (case JSON_parse P raw of
             Inl e \<Rightarrow> False
           | Inr st \<Rightarrow>
               (case setupToken C of
                  None \<Rightarrow> False
                | Some tok \<Rightarrow> opt_chain st ''token'' = JStr tok)))"

fun exchanges_code :: "io_call list \<Rightarrow> bool" where
  "exchanges_code [] = False"
| "exchanges_code (GetToken code # cs) = True"
| "exchanges_code (c # cs) = exchanges_code cs"

text \<open>A callback succeeded when it answered, with a status below 400.\<close>

fun succeeded :: "handler_outcome \<Rightarrow> bool" where
  "succeeded (Responded r) = (status_of r < 400)"
| "succeeded (Rejected e) = False"

section \<open>The write discipline the specification describes\<close>

text \<open>
  The specification's words for the token file: write to a temporary location and
  rename. On a sequence of file-system calls this reads: the target is never written
  in place, and it is put in place by a rename from another path that was written
  before.
\<close>

fun writes_in_place :: "string \<Rightarrow> io_call list \<Rightarrow> bool" where
  "writes_in_place target [] = False"
| "writes_in_place target (WriteFileSync f c # cs) = (f = target \<or> writes_in_place target cs)"
| "writes_in_place target (c # cs) = writes_in_place target cs"

fun spec_temp_then_rename :: "string \<Rightarrow> io_call list \<Rightarrow> io_call list \<Rightarrow> bool" where
  "spec_temp_then_rename target done [] = False"
| "spec_temp_then_rename target done (RenameSync src dst # cs) =
     ((dst = target \<and> src \<noteq> target \<and> writes_in_place src done)
      \<or> spec_temp_then_rename target (done @ [RenameSync src dst]) cs)"
| "spec_temp_then_rename target done (c # cs) = spec_temp_then_rename target (done @ [c]) cs"

definition spec_atomic_write :: "string \<Rightarrow> io_call list \<Rightarrow> bool" where
  "spec_atomic_write target calls \<longleftrightarrow>
     \<not> writes_in_place target calls \<and> spec_temp_then_rename target [] calls"

section \<open>A concrete platform for the examples\<close>

text \<open>
  The examples below run the code on one platform: a file system where the token file
  does not exist yet and every write succeeds, the JSON and URI functions of the
  language on the values the examples use, and an authorization server that knows two
  codes.
\<close>

definition hex_digit :: "nat \<Rightarrow> char" where
  "hex_digit n = (if n < 10 then char_of (48 + n) else char_of (87 + n))"

definition json_escape :: "char \<Rightarrow> string" where
  "json_escape c =
     (if c = CHR 0x22 then [CHR 0x5C, CHR 0x22]
      else if c = CHR 0x5C then [CHR 0x5C, CHR 0x5C]
      else if c = CHR 0x08 then [CHR 0x5C, CHR ''b'']
      else if c = CHR 0x0C then [CHR 0x5C, CHR ''f'']
      else if c = CHR 0x0A then [CHR 0x5C, CHR ''n'']
      else if c = CHR 0x0D then [CHR 0x5C, CHR ''r'']
      else if c = CHR 0x09 then [CHR 0x5C, CHR ''t'']
      else if (of_char c :: nat) < 32 then
        [CHR 0x5C, CHR ''u'', CHR ''0'', CHR ''0'', hex_digit (of_char c div 16),
         hex_digit (of_char c mod 16)]
      else [c])"

definition json_quote :: "string \<Rightarrow> string" where
  "json_quote str = CHR 0x22 # concat (map json_escape str) @ [CHR 0x22]"

definition pretty_token :: "string \<times> TokenConfig \<Rightarrow> string" where
  "pretty_token kv =
     json_quote (fst kv) @ '': {'' @ nl 4
     @ json_quote ''client_id'' @ '': '' @ json_quote (client_id (snd kv)) @ '','' @ nl 4
     @ json_quote ''client_secret'' @ '': '' @ json_quote (client_secret (snd kv)) @ '','' @ nl 4
     @ json_quote ''refresh_token'' @ '': '' @ json_quote (refresh_token (snd kv)) @ nl 2
     @ ''}''"

definition pretty_tokens :: "(string \<times> TokenConfig) list \<Rightarrow> string" where
  "pretty_tokens t =
     (if t = [] then ''{}''
      else ''{'' @ nl 2 @ join ('','' @ nl 2) (map pretty_token t) @ nl 0 @ ''}'')"

fun json_text :: "jsval \<Rightarrow> string" where
  "json_text JUndefined = ''null''"
| "json_text JNull = ''null''"
| "json_text (JBool b) = (if b then ''true'' else ''false'')"
| "json_text (JNum n) = string_of_int n"
| "json_text (JStr str) = json_quote str"
| "json_text (JArr xs) = ''['' @ join '','' (map json_text xs) @ '']''"
| "json_text (JObj kvs) =
     ''{'' @ join '',''
              (map (\<lambda>kv. json_quote (fst kv) @ '':'' @ json_text (snd kv))
                 (filter (\<lambda>kv. snd kv \<noteq> JUndefined) kvs))
     @ ''}''"

definition uri_unreserved :: "char \<Rightarrow> bool" where
  "uri_unreserved c \<longleftrightarrow>
     (let n = (of_char c :: nat)
      in (48 \<le> n \<and> n \<le> 57) \<or> (65 \<le> n \<and> n \<le> 90) \<or> (97 \<le> n \<and> n \<le> 122)
         \<or> c \<in> set ''-_.!~*()'' \<or> c = CHR 0x27)"

definition upper_hex_digit :: "nat \<Rightarrow> char" where
  "upper_hex_digit n = (if n < 10 then char_of (48 + n) else char_of (55 + n))"

definition uri_encode :: "string \<Rightarrow> string" where
  "uri_encode str =
     concat (map (\<lambda>c. if uri_unreserved c then [c]
                       else [CHR ''%'', upper_hex_digit (of_char c div 16),
                             upper_hex_digit (of_char c mod 16)]) str)"

definition state_wrong_secret :: string where
  \<open>state_wrong_secret = ''{"account":"outliyraffiliates@gmail.com","token":"guess"}''\<close>

definition state_right_secret :: string where
  \<open>state_right_secret = ''{"account":"outliyraffiliates@gmail.com","token":"s3cret"}''\<close>

definition example_platform :: platform where
  "example_platform =
     \<lparr>readFileSync = (\<lambda>path. Inl (ErrorObj (''ENOENT: no such file or directory, open '' @ path) None)),
      mkdirSync = (\<lambda>dir. None),
      writeFileSync = (\<lambda>path content. None),
      parse_tokens = (\<lambda>raw. Inl (ErrorObj ''Unexpected end of JSON input'' None)),
      stringify_tokens = pretty_tokens,
      JSON_parse =
        (\<lambda>raw. if raw = state_wrong_secret then
                  Inr (JObj [(''account'', JStr ''outliyraffiliates@gmail.com''),
                             (''token'', JStr ''guess'')])
                else if raw = state_right_secret then
                  Inr (JObj [(''account'', JStr ''outliyraffiliates@gmail.com''),
                             (''token'', JStr ''s3cret'')])
                else if raw = ''null'' then Inr JNull
                else if raw = ''{}'' then Inr (JObj [])
                else Inl (ErrorObj ''Unexpected token in JSON'' None)),
      JSON_stringify = (\<lambda>v. if v = JUndefined then JUndefined else JStr (json_text v)),
      encodeURIComponent = uri_encode,
      generateAuthUrl =
        (\<lambda>cid secret uri opts.
           ''https://accounts.google.com/o/oauth2/v2/auth?client_id='' @ uri_encode cid
           @ ''&redirect_uri='' @ uri_encode uri
           @ ''&login_hint='' @ uri_encode (login_hint opts)
           @ ''&state='' @ uri_encode (to_String (state opts))),
      getToken =
        (\<lambda>cid secret uri code.
           if code = ''code-with-refresh'' then
             Inr \<lparr>cred_refresh_token = Some ''1//refresh-new'', cred_access_token = Some ''ya29.a''\<rparr>
           else if code = ''code-without-refresh'' then
             Inr \<lparr>cred_refresh_token = None, cred_access_token = Some ''ya29.b''\<rparr>
           else Inl (ErrorObj ''invalid_grant''
                       (Some (JObj [(''status'', JNum 400), (''data'', JStr ''invalid_grant'')])))),
      getProfile = (\<lambda>cid secret uri creds. Inr ''iamnickurban@gmail.com'')\<rparr>"

definition example_config :: config where
  "example_config =
     \<lparr>setupToken = Some ''s3cret'', googleClientId = ''client-1'',
      googleClientSecret = ''client-secret-1'', publicUrl = ''https://mcp.example.com''\<rparr>"

definition example_api :: WorkspaceAPI where
  "example_api =
     fst (new_WorkspaceAPI example_platform ''/app/credentials/google-sa.json''
            ''/app/credentials/gmail-tokens.json'')"

definition example_token :: TokenConfig where
  "example_token =
     \<lparr>client_id = ''client-1'', client_secret = ''client-secret-1'',
      refresh_token = ''1//refresh-new''\<rparr>"

text \<open>The example broker after a record was stored under an identity outside the
  allow-list.\<close>

definition unlisted_token_api :: WorkspaceAPI where
  "unlisted_token_api =
     fst (snd (saveToken example_platform example_api ''mallory@example.com'' example_token))"

text \<open>A broker that holds a token and a cached credential for one OAuth identity and a
  cached credential for the delegated identity.\<close>

definition stale_api :: WorkspaceAPI where
  "stale_api =
     example_api\<lparr>
       tokens := [(''iamnickurban@gmail.com'',
                   \<lparr>client_id = ''client-1'', client_secret = ''client-secret-1'',
                    refresh_token = ''1//refresh-old''\<rparr>)],
       authClients := [''iamnickurban@gmail.com'' \<mapsto>
                         OAuth2Client ''client-1'' ''client-secret-1'' ''1//refresh-old'',
                       ''nick@outliyr.com'' \<mapsto>
                         JWT ''/app/credentials/google-sa.json'' SCOPES ''nick@outliyr.com'']\<rparr>"

text \<open>The example broker after \<open>gmail("nick@outliyr.com")\<close>: a credential and a mail client
  are cached for the delegated identity.\<close>

definition warm_api :: WorkspaceAPI where
  "warm_api = snd (gmail example_api ''nick@outliyr.com'')"

text \<open>A platform whose token file exists and holds one record.\<close>

definition loaded_platform :: platform where
  "loaded_platform =
     example_platform\<lparr>
       readFileSync := (\<lambda>path. Inr (pretty_tokens [(''iamnickurban@gmail.com'', example_token)])),
       parse_tokens := (\<lambda>raw. Inr [(''iamnickurban@gmail.com'', example_token)])\<rparr>"

text \<open>An upstream failure with HTTP status 401, and mode handlers that fail with it
  whatever the account.\<close>

definition upstream_401 :: js_error where
  "upstream_401 =
     ErrorObj ''Request failed with status code 401''
       (Some (JObj [(''status'', JNum 401),
                    (''data'', JObj [(''error'',
                       JObj [(''code'', JNum 401), (''message'', JStr ''Invalid Credentials'')])])]))"

definition failing_handlers :: mode_handlers where
  "failing_handlers =
     \<lparr>handleGmail = (\<lambda>api params. (Inl upstream_401, api)),
      handleCalendar = (\<lambda>api params. (Inl upstream_401, api)),
      handleDrive = (\<lambda>api params. (Inl upstream_401, api)),
      handleContacts = (\<lambda>api params. (Inl upstream_401, api))\<rparr>"

text \<open>The example configuration with \<open>SETUP_TOKEN\<close> unset.\<close>

definition unset_config :: config where
  "unset_config = example_config\<lparr>setupToken := None\<rparr>"

section \<open>The cache-key invariant\<close>

lemma isAllowedAccount_iff: "isAllowedAccount a \<longleftrightarrow> a \<in> set ALLOWED_ACCOUNTS"
  by (simp add: isAllowedAccount_def)

lemma auth_not_allowed:
  "\<not> isAllowedAccount a \<Longrightarrow> auth s a = (Inl (ErrorObj (''Account not allowed: '' @ a) None), s)"
  by (simp add: auth_def)

lemma auth_caches:
  "auth s a = (r, s') \<Longrightarrow>
     gmailClients s' = gmailClients s \<and> calendarClients s' = calendarClients s \<and>
     driveClients s' = driveClients s \<and> peopleClients s' = peopleClients s \<and>
     tokens s' = tokens s \<and>
     (authClients s' = authClients s \<or> (isAllowedAccount a \<and> (\<exists>c. authClients s' = (authClients s)(a \<mapsto> c))))"
  by (auto simp: auth_def Let_def split: if_splits option.splits)

lemma auth_Inr_allowed: "auth s a = (Inr c, s') \<Longrightarrow> isAllowedAccount a"
  by (auto simp: auth_def Let_def split: if_splits option.splits)

lemma auth_keeps_inv:
  assumes "cache_keys_allowed s" "auth s a = (r, s')"
  shows "cache_keys_allowed s'"
  using assms auth_caches[OF assms(2)]
  by (auto simp: cache_keys_allowed_def isAllowedAccount_iff subset_iff dom_def split: if_splits)

lemma gmail_keeps_inv: "cache_keys_allowed s \<Longrightarrow> cache_keys_allowed (snd (gmail s a))"
proof (cases "auth s a")
  case (Pair r s')
  assume inv: "cache_keys_allowed s"
  from auth_keeps_inv[OF inv Pair] have inv': "cache_keys_allowed s'" .
  show ?thesis
  proof (cases r)
    case (Inl e)
    with Pair inv inv' show ?thesis by (simp add: gmail_def split: option.splits)
  next
    case (Inr c)
    with Pair have "isAllowedAccount a" by (auto dest: auth_Inr_allowed)
    with Pair Inr inv inv' show ?thesis
      by (auto simp: gmail_def Let_def cache_keys_allowed_def isAllowedAccount_iff subset_iff dom_def
               split: option.splits if_splits)
  qed
qed

lemma calendar_keeps_inv: "cache_keys_allowed s \<Longrightarrow> cache_keys_allowed (snd (calendar s a))"
proof (cases "auth s a")
  case (Pair r s')
  assume inv: "cache_keys_allowed s"
  from auth_keeps_inv[OF inv Pair] have inv': "cache_keys_allowed s'" .
  show ?thesis
  proof (cases r)
    case (Inl e)
    with Pair inv inv' show ?thesis by (simp add: calendar_def split: option.splits)
  next
    case (Inr c)
    with Pair have "isAllowedAccount a" by (auto dest: auth_Inr_allowed)
    with Pair Inr inv inv' show ?thesis
      by (auto simp: calendar_def Let_def cache_keys_allowed_def isAllowedAccount_iff subset_iff dom_def
               split: option.splits if_splits)
  qed
qed

lemma drive_keeps_inv: "cache_keys_allowed s \<Longrightarrow> cache_keys_allowed (snd (drive s a))"
proof (cases "auth s a")
  case (Pair r s')
  assume inv: "cache_keys_allowed s"
  from auth_keeps_inv[OF inv Pair] have inv': "cache_keys_allowed s'" .
  show ?thesis
  proof (cases r)
    case (Inl e)
    with Pair inv inv' show ?thesis by (simp add: drive_def split: option.splits)
  next
    case (Inr c)
    with Pair have "isAllowedAccount a" by (auto dest: auth_Inr_allowed)
    with Pair Inr inv inv' show ?thesis
      by (auto simp: drive_def Let_def cache_keys_allowed_def isAllowedAccount_iff subset_iff dom_def
               split: option.splits if_splits)
  qed
qed

lemma people_keeps_inv: "cache_keys_allowed s \<Longrightarrow> cache_keys_allowed (snd (people s a))"
proof (cases "auth s a")
  case (Pair r s')
  assume inv: "cache_keys_allowed s"
  from auth_keeps_inv[OF inv Pair] have inv': "cache_keys_allowed s'" .
  show ?thesis
  proof (cases r)
    case (Inl e)
    with Pair inv inv' show ?thesis by (simp add: people_def split: option.splits)
  next
    case (Inr c)
    with Pair have "isAllowedAccount a" by (auto dest: auth_Inr_allowed)
    with Pair Inr inv inv' show ?thesis
      by (auto simp: people_def Let_def cache_keys_allowed_def isAllowedAccount_iff subset_iff dom_def
               split: option.splits if_splits)
  qed
qed

lemma loadTokens_keeps_inv: "cache_keys_allowed s \<Longrightarrow> cache_keys_allowed (fst (loadTokens P s))"
  by (auto simp: loadTokens_def cache_keys_allowed_def clear_caches_def split: sum.splits)

lemma new_inv: "cache_keys_allowed (fst (new_WorkspaceAPI P kf tf))"
  unfolding new_WorkspaceAPI_def
  by (rule loadTokens_keeps_inv) (simp add: cache_keys_allowed_def)

lemma saveToken_keeps_inv:
  "cache_keys_allowed s \<Longrightarrow> cache_keys_allowed (fst (snd (saveToken P s email token)))"
  by (auto simp: saveToken_def Let_def cache_keys_allowed_def delete_caches_def subset_iff dom_def
           split: option.splits if_splits)

lemma reachable_cache_keys: "reachable s \<Longrightarrow> cache_keys_allowed s"
proof (induction rule: reachable.induct)
  case (r_new P kf tf) show ?case by (rule new_inv)
next
  case (r_load s P) then show ?case by (simp add: loadTokens_keeps_inv)
next
  case (r_save s P email token) then show ?case by (simp add: saveToken_keeps_inv)
next
  case (r_gmail s account) then show ?case by (simp add: gmail_keeps_inv)
next
  case (r_calendar s account) then show ?case by (simp add: calendar_keeps_inv)
next
  case (r_drive s account) then show ?case by (simp add: drive_keeps_inv)
next
  case (r_people s account) then show ?case by (simp add: people_keeps_inv)
qed

lemma not_cached_if_unlisted:
  assumes "cache_keys_allowed s" "\<not> isAllowedAccount a"
  shows "authClients s a = None" "gmailClients s a = None" "calendarClients s a = None"
        "driveClients s a = None" "peopleClients s a = None"
  using assms by (auto simp: cache_keys_allowed_def isAllowedAccount_iff)

lemma unlisted_token_api_reachable: "reachable unlisted_token_api"
  unfolding unlisted_token_api_def example_api_def by (intro reachable.intros)

text \<open>
  Claim C1. For every account string outside the allow-list, whatever the token map
  holds, \<open>auth\<close> throws \<open>Account not allowed: <account>\<close> and leaves the broker as it
  was: no credential is built and no cache entry is written. In every reachable state
  the four service getters, which reach \<open>auth\<close> on a cache miss, throw the same error
  and change nothing either.
\<close>

theorem auth_rejects_unlisted_account:
  assumes "\<not> isAllowedAccount account"
  shows "auth s account = (Inl (ErrorObj (''Account not allowed: '' @ account) None), s) \<and>
         (reachable s \<longrightarrow>
            gmail s account = (Inl (ErrorObj (''Account not allowed: '' @ account) None), s) \<and>
            calendar s account = (Inl (ErrorObj (''Account not allowed: '' @ account) None), s) \<and>
            drive s account = (Inl (ErrorObj (''Account not allowed: '' @ account) None), s) \<and>
            people s account = (Inl (ErrorObj (''Account not allowed: '' @ account) None), s))"
proof (intro conjI impI)
  show a: "auth s account = (Inl (ErrorObj (''Account not allowed: '' @ account) None), s)"
    using assms by (rule auth_not_allowed)
  assume "reachable s"
  then have inv: "cache_keys_allowed s" by (rule reachable_cache_keys)
  note nc = not_cached_if_unlisted[OF inv assms]
  show "gmail s account = (Inl (ErrorObj (''Account not allowed: '' @ account) None), s)"
    by (simp add: gmail_def nc a)
  show "calendar s account = (Inl (ErrorObj (''Account not allowed: '' @ account) None), s)"
    by (simp add: calendar_def nc a)
  show "drive s account = (Inl (ErrorObj (''Account not allowed: '' @ account) None), s)"
    by (simp add: drive_def nc a)
  show "people s account = (Inl (ErrorObj (''Account not allowed: '' @ account) None), s)"
    by (simp add: people_def nc a)
qed

theorem auth_rejects_unlisted_account_witness:
  "\<not> isAllowedAccount ''mallory@example.com'' \<and>
   map_of (tokens unlisted_token_api) ''mallory@example.com'' = Some example_token \<and>
   auth unlisted_token_api ''mallory@example.com''
     = (Inl (ErrorObj ''Account not allowed: mallory@example.com'' None), unlisted_token_api) \<and>
   gmail unlisted_token_api ''mallory@example.com''
     = (Inl (ErrorObj ''Account not allowed: mallory@example.com'' None), unlisted_token_api)"
proof -
  have h: "\<not> isAllowedAccount ''mallory@example.com''"
    by (simp add: isAllowedAccount_def ALLOWED_ACCOUNTS_def)
  have t: "map_of (tokens unlisted_token_api) ''mallory@example.com'' = Some example_token"
    by code_simp
  show ?thesis
    using h t unlisted_token_api_reachable
      auth_rejects_unlisted_account [OF h, of unlisted_token_api]
    by simp
qed

section \<open>Token upsert and credential resolution\<close>

lemma saveToken_Inr:
  assumes "saveToken P s email token = (Inr u, s', io)"
  shows "s' = delete_caches email (s\<lparr>tokens := AList.update email token (tokens s)\<rparr>)"
    and "io = (if substring (tokensFile s) 0 (lastIndexOf (tokensFile s) CHR ''/'') \<noteq> []
               then [MkdirSync (substring (tokensFile s) 0 (lastIndexOf (tokensFile s) CHR ''/''))]
               else [])
              @ [WriteFileSync (tokensFile s)
                   (stringify_tokens P (AList.update email token (tokens s)))]"
  using assms
  by (auto simp: saveToken_def Let_def split: option.splits if_splits)

text \<open>
  Claim C2. For every allowed OAuth identity and token record, once \<open>saveToken\<close> has
  returned normally the next \<open>auth\<close> for that identity finds no cached credential (the
  upsert removed it) and returns, and caches, a credential built from the record's
  client id, client secret and refresh token.
\<close>

theorem auth_after_saveToken:
  assumes "isAllowedAccount email" and "email \<noteq> WORKSPACE_ACCOUNT"
    and "saveToken P s email rec = (Inr (), s', io)"
  shows "fst (auth s' email)
           = Inr (OAuth2Client (client_id rec) (client_secret rec) (refresh_token rec)) \<and>
         authClients s' email = None \<and>
         authClients (snd (auth s' email)) email
           = Some (OAuth2Client (client_id rec) (client_secret rec) (refresh_token rec))"
proof -
  from saveToken_Inr(1)[OF assms(3)]
  have s': "s' = delete_caches email (s\<lparr>tokens := AList.update email rec (tokens s)\<rparr>)" .
  have none: "authClients s' email = None"
    by (simp add: s' delete_caches_def)
  have tok: "map_of (tokens s') email = Some rec"
    by (simp add: s' delete_caches_def update_conv')
  show ?thesis
    using assms(1,2) none tok by (simp add: auth_def Let_def)
qed

theorem auth_after_saveToken_witness:
  "isAllowedAccount ''iamnickurban@gmail.com'' \<and>
   ''iamnickurban@gmail.com'' \<noteq> WORKSPACE_ACCOUNT \<and>
   fst (auth stale_api ''iamnickurban@gmail.com'')
     = Inr (OAuth2Client ''client-1'' ''client-secret-1'' ''1//refresh-old'') \<and>
   fst (saveToken example_platform stale_api ''iamnickurban@gmail.com'' example_token) = Inr () \<and>
   fst (auth (fst (snd (saveToken example_platform stale_api ''iamnickurban@gmail.com''
                          example_token)))
          ''iamnickurban@gmail.com'')
     = Inr (OAuth2Client ''client-1'' ''client-secret-1'' ''1//refresh-new'')"
proof -
  have h1: "isAllowedAccount ''iamnickurban@gmail.com''"
    by (simp add: isAllowedAccount_def ALLOWED_ACCOUNTS_def)
  have h2: "''iamnickurban@gmail.com'' \<noteq> WORKSPACE_ACCOUNT"
    by (simp add: WORKSPACE_ACCOUNT_def)
  have old: "fst (auth stale_api ''iamnickurban@gmail.com'')
               = Inr (OAuth2Client ''client-1'' ''client-secret-1'' ''1//refresh-old'')"
    by (simp add: auth_def stale_api_def h1)
  have ok: "fst (saveToken example_platform stale_api ''iamnickurban@gmail.com'' example_token)
              = Inr ()"
    by (simp add: saveToken_def Let_def example_platform_def)
  then have h3: "saveToken example_platform stale_api ''iamnickurban@gmail.com'' example_token
             = (Inr (),
                fst (snd (saveToken example_platform stale_api ''iamnickurban@gmail.com''
                            example_token)),
                snd (snd (saveToken example_platform stale_api ''iamnickurban@gmail.com''
                            example_token)))"
    by (metis prod.collapse)
  show ?thesis
    using h1 h2 old ok auth_after_saveToken [OF h1 h2 h3]
    by (simp add: example_token_def)
qed

section \<open>Cache invalidation when the token store changes\<close>

lemma saveToken_tokens:
  "tokens (fst (snd (saveToken P s email token))) = AList.update email token (tokens s)"
  by (simp add: saveToken_def Let_def delete_caches_def split: option.splits)

text \<open>
  Claim C7, as stated, fails: after a successful \<open>saveToken\<close> for one identity the
  credential and the mail client cached for another identity are still there.
\<close>

theorem saveToken_keeps_other_identities_counterexample:
  "fst (saveToken example_platform warm_api ''iamnickurban@gmail.com'' example_token) = Inr () \<and>
   authClients (fst (snd (saveToken example_platform warm_api ''iamnickurban@gmail.com''
                            example_token))) ''nick@outliyr.com''
     = Some (JWT ''/app/credentials/google-sa.json'' SCOPES ''nick@outliyr.com'') \<and>
   gmailClients (fst (snd (saveToken example_platform warm_api ''iamnickurban@gmail.com''
                             example_token))) ''nick@outliyr.com''
     = Some (ServiceClient Gmail ''v1''
               (JWT ''/app/credentials/google-sa.json'' SCOPES ''nick@outliyr.com''))"
  by (simp add: saveToken_def Let_def example_platform_def warm_api_def gmail_def auth_def
        example_api_def new_WorkspaceAPI_def loadTokens_def delete_caches_def
        isAllowedAccount_def ALLOWED_ACCOUNTS_def WORKSPACE_ACCOUNT_def)

text \<open>
  Claim C7, amended. A reload that reads and parses the token file empties all five
  caches, for every identity. A \<open>saveToken(email, _)\<close> that returns normally removes
  the entries of \<open>email\<close> from the five caches and keeps the entries of every other
  identity.
\<close>

theorem store_change_invalidation:
  "(readFileSync P (tokensFile s) = Inr raw \<and> parse_tokens P raw = Inr t \<longrightarrow>
      tokens (fst (loadTokens P s)) = t \<and>
      authClients (fst (loadTokens P s)) = Map.empty \<and>
      gmailClients (fst (loadTokens P s)) = Map.empty \<and>
      calendarClients (fst (loadTokens P s)) = Map.empty \<and>
      driveClients (fst (loadTokens P s)) = Map.empty \<and>
      peopleClients (fst (loadTokens P s)) = Map.empty) \<and>
   (saveToken P s email token = (Inr (), s', io) \<longrightarrow>
      authClients s' = (authClients s)(email := None) \<and>
      gmailClients s' = (gmailClients s)(email := None) \<and>
      calendarClients s' = (calendarClients s)(email := None) \<and>
      driveClients s' = (driveClients s)(email := None) \<and>
      peopleClients s' = (peopleClients s)(email := None))"
proof (intro conjI impI)
  assume "saveToken P s email token = (Inr (), s', io)"
  from saveToken_Inr(1)[OF this]
  have s': "s' = delete_caches email (s\<lparr>tokens := AList.update email token (tokens s)\<rparr>)" .
  show "authClients s' = (authClients s)(email := None)" by (simp add: s' delete_caches_def)
  show "gmailClients s' = (gmailClients s)(email := None)" by (simp add: s' delete_caches_def)
  show "calendarClients s' = (calendarClients s)(email := None)" by (simp add: s' delete_caches_def)
  show "driveClients s' = (driveClients s)(email := None)" by (simp add: s' delete_caches_def)
  show "peopleClients s' = (peopleClients s)(email := None)" by (simp add: s' delete_caches_def)
qed (simp_all add: loadTokens_def clear_caches_def)

theorem store_change_invalidation_witness:
  "readFileSync loaded_platform (tokensFile warm_api)
     = Inr (pretty_tokens [(''iamnickurban@gmail.com'', example_token)]) \<and>
   parse_tokens loaded_platform (pretty_tokens [(''iamnickurban@gmail.com'', example_token)])
     = Inr [(''iamnickurban@gmail.com'', example_token)] \<and>
   authClients warm_api ''nick@outliyr.com'' \<noteq> None \<and>
   authClients (fst (loadTokens loaded_platform warm_api)) = Map.empty \<and>
   gmailClients (fst (loadTokens loaded_platform warm_api)) = Map.empty \<and>
   fst (saveToken example_platform warm_api ''nick@outliyr.com'' example_token) = Inr () \<and>
   authClients (fst (snd (saveToken example_platform warm_api ''nick@outliyr.com'' example_token)))
     = (authClients warm_api)(''nick@outliyr.com'' := None)"
proof -
  have r: "readFileSync loaded_platform (tokensFile warm_api)
             = Inr (pretty_tokens [(''iamnickurban@gmail.com'', example_token)])"
    by (simp add: loaded_platform_def)
  have p: "parse_tokens loaded_platform (pretty_tokens [(''iamnickurban@gmail.com'', example_token)])
             = Inr [(''iamnickurban@gmail.com'', example_token)]"
    by (simp add: loaded_platform_def)
  have c: "authClients warm_api ''nick@outliyr.com'' \<noteq> None"
    by (simp add: warm_api_def gmail_def auth_def Let_def example_api_def new_WorkspaceAPI_def
          loadTokens_def example_platform_def isAllowedAccount_def ALLOWED_ACCOUNTS_def
          WORKSPACE_ACCOUNT_def)
  have ok: "fst (saveToken example_platform warm_api ''nick@outliyr.com'' example_token) = Inr ()"
    by (simp add: saveToken_def Let_def example_platform_def)
  then have sv: "saveToken example_platform warm_api ''nick@outliyr.com'' example_token
             = (Inr (),
                fst (snd (saveToken example_platform warm_api ''nick@outliyr.com'' example_token)),
                snd (snd (saveToken example_platform warm_api ''nick@outliyr.com'' example_token)))"
    by (metis prod.collapse)
  show ?thesis
    using r p c ok sv
      store_change_invalidation [of loaded_platform warm_api
        "pretty_tokens [(''iamnickurban@gmail.com'', example_token)]"
        "[(''iamnickurban@gmail.com'', example_token)]"]
      store_change_invalidation [of example_platform warm_api _ _ "''nick@outliyr.com''"
        example_token
        "fst (snd (saveToken example_platform warm_api ''nick@outliyr.com'' example_token))"
        "snd (snd (saveToken example_platform warm_api ''nick@outliyr.com'' example_token))"]
    by simp
qed

section \<open>How the token file is written\<close>

text \<open>
  Claim C6, as stated, fails: \<open>saveToken\<close> creates the directory and writes the token
  file in place; no file-system call of it is a rename.
\<close>

theorem saveToken_writes_in_place_counterexample:
  "snd (snd (saveToken example_platform example_api ''iamnickurban@gmail.com'' example_token))
     = [MkdirSync ''/app/credentials'',
        WriteFileSync ''/app/credentials/gmail-tokens.json''
          (pretty_tokens [(''iamnickurban@gmail.com'', example_token)])] \<and>
   \<not> spec_atomic_write ''/app/credentials/gmail-tokens.json''
       (snd (snd (saveToken example_platform example_api ''iamnickurban@gmail.com''
                    example_token)))"
proof -
  have io: "snd (snd (saveToken example_platform example_api ''iamnickurban@gmail.com''
                        example_token))
     = [MkdirSync ''/app/credentials'',
        WriteFileSync ''/app/credentials/gmail-tokens.json''
          (pretty_tokens [(''iamnickurban@gmail.com'', example_token)])]"
    by (simp add: saveToken_def Let_def example_platform_def example_api_def
          new_WorkspaceAPI_def loadTokens_def substring_def lastIndexOf_def)
  show ?thesis
    unfolding io by (simp add: spec_atomic_write_def)
qed

text \<open>
  Claim C6, amended. Every \<open>saveToken\<close> that returns normally has written the full
  token map, the new record included, with one \<open>writeFileSync\<close> on the token file
  itself, after one \<open>mkdirSync\<close> of the parent directory when the path names one; these
  are all its file-system calls, and the write is not the temp-and-rename discipline.
\<close>

theorem saveToken_file_system_calls:
  assumes "saveToken P s email token = (Inr (), s', io)"
  shows "io = (if substring (tokensFile s) 0 (lastIndexOf (tokensFile s) CHR ''/'') \<noteq> []
               then [MkdirSync (substring (tokensFile s) 0 (lastIndexOf (tokensFile s) CHR ''/''))]
               else [])
              @ [WriteFileSync (tokensFile s)
                   (stringify_tokens P (AList.update email token (tokens s)))] \<and>
         map_of (AList.update email token (tokens s)) email = Some token \<and>
         \<not> spec_atomic_write (tokensFile s) io"
proof -
  note io = saveToken_Inr(2)[OF assms]
  have "writes_in_place (tokensFile s) io"
    by (simp add: io)
  then show ?thesis
    using io by (simp add: spec_atomic_write_def update_conv')
qed

theorem saveToken_file_system_calls_witness:
  "fst (saveToken example_platform example_api ''outliyraffiliates@gmail.com'' example_token)
     = Inr () \<and>
   snd (snd (saveToken example_platform example_api ''outliyraffiliates@gmail.com''
               example_token))
     = [MkdirSync ''/app/credentials'',
        WriteFileSync ''/app/credentials/gmail-tokens.json''
          (pretty_tokens [(''outliyraffiliates@gmail.com'', example_token)])]"
proof -
  have ok: "fst (saveToken example_platform example_api ''outliyraffiliates@gmail.com''
                   example_token) = Inr ()"
    by (simp add: saveToken_def Let_def example_platform_def)
  then have sv: "saveToken example_platform example_api ''outliyraffiliates@gmail.com''
                   example_token
             = (Inr (),
                fst (snd (saveToken example_platform example_api ''outliyraffiliates@gmail.com''
                            example_token)),
                snd (snd (saveToken example_platform example_api ''outliyraffiliates@gmail.com''
                            example_token)))"
    by (metis prod.collapse)
  have f: "tokensFile example_api = ''/app/credentials/gmail-tokens.json''"
          "tokens example_api = []"
    by (simp_all add: example_api_def new_WorkspaceAPI_def loadTokens_def example_platform_def)
  have d: "substring ''/app/credentials/gmail-tokens.json'' 0
             (lastIndexOf ''/app/credentials/gmail-tokens.json'' CHR ''/'') = ''/app/credentials''"
    by (simp add: substring_def lastIndexOf_def)
  show ?thesis
    using ok saveToken_file_system_calls [OF sv]
    by (simp add: f d example_platform_def)
qed

section \<open>Stored identities and cached identities\<close>

lemma set_push_absent:
  "set (foldl (\<lambda>accounts email. if email \<in> set accounts then accounts else accounts @ [email])
          acc xs) = set acc \<union> set xs"
  by (induction xs arbitrary: acc) auto

lemma set_getConfiguredAccounts:
  "set (getConfiguredAccounts s) = insert WORKSPACE_ACCOUNT (fst ` set (tokens s))"
  by (simp add: getConfiguredAccounts_def set_push_absent)

text \<open>
  Claim C9. In every reachable state every key of the credential cache and of the four
  service-client caches is in the allow-list. \<open>saveToken\<close> itself accepts any identity:
  from a reachable state it leads to a reachable state whose token map holds the record
  under that identity and whose \<open>getConfiguredAccounts\<close> lists it, and the caches of
  that state still have allow-listed keys only.
\<close>

theorem cache_keys_in_allow_list:
  assumes "reachable s"
  shows "cache_keys_allowed s \<and>
         reachable (fst (snd (saveToken P s email token))) \<and>
         map_of (tokens (fst (snd (saveToken P s email token)))) email = Some token \<and>
         email \<in> set (getConfiguredAccounts (fst (snd (saveToken P s email token)))) \<and>
         cache_keys_allowed (fst (snd (saveToken P s email token)))"
proof -
  have r: "reachable (fst (snd (saveToken P s email token)))"
    using assms by (rule reachable.r_save)
  have t: "map_of (tokens (fst (snd (saveToken P s email token)))) email = Some token"
    by (simp add: saveToken_tokens update_conv')
  have g: "email \<in> set (getConfiguredAccounts (fst (snd (saveToken P s email token))))"
    by (simp add: set_getConfiguredAccounts saveToken_tokens dom_update)
  show ?thesis
    using assms r t g by (simp add: reachable_cache_keys)
qed

theorem cache_keys_in_allow_list_witness:
  "reachable example_api \<and>
   \<not> isAllowedAccount ''mallory@example.com'' \<and>
   getConfiguredAccounts unlisted_token_api = [''nick@outliyr.com'', ''mallory@example.com''] \<and>
   map_of (tokens unlisted_token_api) ''mallory@example.com'' = Some example_token \<and>
   cache_keys_allowed unlisted_token_api \<and>
   authClients (snd (gmail unlisted_token_api ''mallory@example.com'')) ''mallory@example.com''
     = None"
proof -
  have r: "reachable example_api"
    unfolding example_api_def by (rule reachable.r_new)
  have h: "\<not> isAllowedAccount ''mallory@example.com''"
    by (simp add: isAllowedAccount_def ALLOWED_ACCOUNTS_def)
  have g: "getConfiguredAccounts unlisted_token_api
             = [''nick@outliyr.com'', ''mallory@example.com'']"
    by code_simp
  have a: "authClients (snd (gmail unlisted_token_api ''mallory@example.com''))
             ''mallory@example.com'' = None"
    by code_simp
  show ?thesis
    using r h g a
      cache_keys_in_allow_list [OF r, of example_platform "''mallory@example.com''" example_token]
    by (simp add: unlisted_token_api_def)
qed

section \<open>Translation of upstream 401 failures\<close>

text \<open>
  Claim C8, as stated, fails: the same 401 failure is translated to the same message
  for the delegated identity and for an OAuth identity.
\<close>

theorem same_401_message_counterexample:
  "fst (toolHandler example_platform failing_handlers example_api
          \<lparr>params_account = ''nick@outliyr.com'', params_mode = ''gmail''\<rparr>)
     = fst (toolHandler example_platform failing_handlers example_api
              \<lparr>params_account = ''iamnickurban@gmail.com'', params_mode = ''gmail''\<rparr>) \<and>
   handleApiError example_platform upstream_401 = auth_failed_text @ ''Invalid Credentials''"
  by (simp add: toolHandler_def mode_switch_def failing_handlers_def handleApiError_def upstream_401_def
        opt_chain_def nullish_def auth_failed_text_def)

text \<open>
  Claim C8, amended. The translation of an upstream failure with status 401 does not
  depend on the identity: it is one fixed text that names both remedies (domain-wide
  delegation for nick@outliyr.com, a new refresh token for Gmail accounts) followed by
  the upstream message, and \<open>toolHandler\<close> returns the same reply for any two accounts
  whose mode handler fails with the same error.
\<close>

lemma auth_failed_text_names_both:
  "includes_str auth_failed_text ''For nick@outliyr.com: verify domain-wide delegation''"
  "includes_str auth_failed_text ''For Gmail accounts: refresh token may be revoked, re-run generate-token''"
  by (simp_all add: auth_failed_text_def em_dash_def)

theorem translation_of_401:
  assumes "response_in err = Some resp" and "opt_chain resp ''status'' = JNum 401"
  shows "handleApiError P err = auth_failed_text @ to_String (upstream_msg P resp) \<and>
         includes_str auth_failed_text ''For nick@outliyr.com: verify domain-wide delegation'' \<and>
         includes_str auth_failed_text
           ''For Gmail accounts: refresh token may be revoked, re-run generate-token'' \<and>
         (\<forall>H api p h api'.
            mode_switch H (params_mode p) = Some h \<and> h api p = (Inl err, api') \<longrightarrow>
            toolHandler P H api p
              = (JSON_stringify P
                   (JObj [(''error'',
                           JStr (auth_failed_text @ to_String (upstream_msg P resp)))]),
                 api'))"
proof -
  have m: "handleApiError P err = auth_failed_text @ to_String (upstream_msg P resp)"
    using assms
    by (simp add: handleApiError_def Let_def upstream_msg_def auth_failed_text_def)
  show ?thesis
    using auth_failed_text_names_both by (simp add: m toolHandler_def)
qed

theorem translation_of_401_witness:
  "response_in upstream_401
     = Some (JObj [(''status'', JNum 401),
                   (''data'', JObj [(''error'',
                      JObj [(''code'', JNum 401), (''message'', JStr ''Invalid Credentials'')])])]) \<and>
   handleApiError example_platform upstream_401 = auth_failed_text @ ''Invalid Credentials'' \<and>
   toolHandler example_platform failing_handlers example_api
     \<lparr>params_account = ''outliyraffiliates@gmail.com'', params_mode = ''drive''\<rparr>
     = (JSON_stringify example_platform
          (JObj [(''error'', JStr (auth_failed_text @ ''Invalid Credentials''))]), example_api)"
proof -
  let ?resp = "JObj [(''status'', JNum 401),
                   (''data'', JObj [(''error'',
                      JObj [(''code'', JNum 401), (''message'', JStr ''Invalid Credentials'')])])]"
  have r: "response_in upstream_401 = Some ?resp"
    by (simp add: upstream_401_def)
  have st: "opt_chain ?resp ''status'' = JNum 401"
    by (simp add: opt_chain_def nullish_def)
  have u: "upstream_msg example_platform ?resp = JStr ''Invalid Credentials''"
    by (simp add: upstream_msg_def opt_chain_def nullish_def)
  have sw: "mode_switch failing_handlers ''drive'' = Some (\<lambda>api params. (Inl upstream_401, api))"
    by (simp add: mode_switch_def failing_handlers_def)
  show ?thesis
    using r sw translation_of_401 [OF r st, of example_platform]
    by (simp add: u)
qed

section \<open>The authorization callback\<close>

text \<open>
  Claim C3. A callback whose state does not parse, or whose embedded secret is not the
  configured setup secret, fails whatever its code is: it answers 400 or 403, or, when
  the state parses to \<open>null\<close>, throws while reading the secret and answers
  nothing. It makes no call at all, so the code is not exchanged, and the broker with
  its token map is unchanged.
\<close>

theorem callback_fails_closed:
  assumes "\<not> spec_state_secret_matches P C q"
  shows "\<not> succeeded (fst (oauth2callback_handler P C api q)) \<and>
         ((\<exists>body. fst (oauth2callback_handler P C api q) = Responded (Send 400 body)) \<or>
          fst (oauth2callback_handler P C api q)
            = Responded (Send 403 ''<h1>Invalid setup token</h1>'') \<or>
          (\<exists>raw st. q_state q = Some raw \<and> JSON_parse P raw = Inr st \<and> nullish st \<and>
             fst (oauth2callback_handler P C api q)
               = Rejected (TypeError_reading (to_String st) ''token''))) \<and>
         snd (oauth2callback_handler P C api q) = (api, []) \<and>
         \<not> exchanges_code (snd (snd (oauth2callback_handler P C api q)))"
  using assms
  apply (auto simp: oauth2callback_handler_def spec_state_secret_matches_def opt_chain_def nullish_def
      split: option.splits sum.splits if_splits)
  done


lemma example_api_eq:
  "example_api =
     \<lparr>keyFile = ''/app/credentials/google-sa.json'',
      tokensFile = ''/app/credentials/gmail-tokens.json'', tokens = [],
      authClients = Map.empty, gmailClients = Map.empty, calendarClients = Map.empty,
      driveClients = Map.empty, peopleClients = Map.empty\<rparr>"
  by (simp add: example_api_def new_WorkspaceAPI_def loadTokens_def example_platform_def)

lemma example_parse:
  "JSON_parse example_platform state_wrong_secret
     = Inr (JObj [(''account'', JStr ''outliyraffiliates@gmail.com''), (''token'', JStr ''guess'')])"
  "JSON_parse example_platform state_right_secret
     = Inr (JObj [(''account'', JStr ''outliyraffiliates@gmail.com''), (''token'', JStr ''s3cret'')])"
  by (simp_all add: example_platform_def state_wrong_secret_def state_right_secret_def)

lemma example_state_nonempty: "state_wrong_secret \<noteq> []" "state_right_secret \<noteq> []"
  by (simp_all add: state_wrong_secret_def state_right_secret_def)

theorem callback_fails_closed_witness:
  "\<not> spec_state_secret_matches example_platform example_config
       \<lparr>q_error = None, q_code = Some ''code-with-refresh'', q_state = Some state_wrong_secret\<rparr> \<and>
   oauth2callback_handler example_platform example_config example_api
     \<lparr>q_error = None, q_code = Some ''code-with-refresh'', q_state = Some state_wrong_secret\<rparr>
     = (Responded (Send 403 ''<h1>Invalid setup token</h1>''), example_api, []) \<and>
   \<not> spec_state_secret_matches example_platform example_config
       \<lparr>q_error = None, q_code = Some ''code-with-refresh'', q_state = Some ''null''\<rparr> \<and>
   \<not> succeeded (fst (oauth2callback_handler example_platform example_config example_api
       \<lparr>q_error = None, q_code = Some ''code-with-refresh'', q_state = Some ''null''\<rparr>))"
proof -
  have h: "\<not> spec_state_secret_matches example_platform example_config
       \<lparr>q_error = None, q_code = Some ''code-with-refresh'', q_state = Some state_wrong_secret\<rparr>"
    by (simp add: spec_state_secret_matches_def example_parse example_config_def opt_chain_def
          nullish_def)
  have h': "\<not> spec_state_secret_matches example_platform example_config
       \<lparr>q_error = None, q_code = Some ''code-with-refresh'', q_state = Some ''null''\<rparr>"
    by (simp add: spec_state_secret_matches_def example_platform_def state_wrong_secret_def
          state_right_secret_def example_config_def opt_chain_def nullish_def)
  have r: "oauth2callback_handler example_platform example_config example_api
     \<lparr>q_error = None, q_code = Some ''code-with-refresh'', q_state = Some state_wrong_secret\<rparr>
     = (Responded (Send 403 ''<h1>Invalid setup token</h1>''), example_api, [])"
    by (simp add: oauth2callback_handler_def example_parse example_config_def nullish_def
          example_state_nonempty)
  show ?thesis
    using h h' r
      callback_fails_closed [OF h, of example_api]
      callback_fails_closed [OF h', of example_api]
    by simp
qed

lemma no_refresh_token_page_revoke: "includes_str no_refresh_token_page ''Revoke it at''"
  by code_simp

lemma no_refresh_token_page_retry: "includes_str no_refresh_token_page ''then try again.''"
  by code_simp

text \<open>
  Claim C4. A callback that exchanges its code and gets a token set without a refresh
  token (absent or empty) answers 400 with the page that tells the user to revoke the
  access and try again; the exchange is its only call, \<open>saveToken\<close> is not called and the
  broker with its token map is unchanged.
\<close>

theorem callback_without_refresh_token:
  assumes "exchanges_code (snd (snd (oauth2callback_handler P C api q)))"
    and "q_code q = Some code"
    and "getToken P (googleClientId C) (googleClientSecret C) (redirectUri C) code = Inr creds"
    and "\<not> truthy_str (cred_refresh_token creds)"
  shows "oauth2callback_handler P C api q
           = (Responded (Send 400 no_refresh_token_page), api, [GetToken code]) \<and>
         includes_str no_refresh_token_page ''Revoke it at'' \<and>
         includes_str no_refresh_token_page ''then try again.''"
proof -
  have "oauth2callback_handler P C api q
           = (Responded (Send 400 no_refresh_token_page), api, [GetToken code])"
    using assms
    by (auto simp: oauth2callback_handler_def exchange_and_save_def
          split: option.splits sum.splits if_splits)
  then show ?thesis
    using no_refresh_token_page_revoke no_refresh_token_page_retry by simp
qed

theorem callback_without_refresh_token_witness:
  "exchanges_code (snd (snd (oauth2callback_handler example_platform example_config example_api
      \<lparr>q_error = None, q_code = Some ''code-without-refresh'',
       q_state = Some state_right_secret\<rparr>))) \<and>
   getToken example_platform (googleClientId example_config) (googleClientSecret example_config)
       (redirectUri example_config) ''code-without-refresh''
     = Inr \<lparr>cred_refresh_token = None, cred_access_token = Some ''ya29.b''\<rparr> \<and>
   oauth2callback_handler example_platform example_config example_api
      \<lparr>q_error = None, q_code = Some ''code-without-refresh'',
       q_state = Some state_right_secret\<rparr>
     = (Responded (Send 400 no_refresh_token_page), example_api,
        [GetToken ''code-without-refresh''])"
proof -
  have g: "getToken example_platform (googleClientId example_config)
       (googleClientSecret example_config) (redirectUri example_config) ''code-without-refresh''
     = Inr \<lparr>cred_refresh_token = None, cred_access_token = Some ''ya29.b''\<rparr>"
    by (simp add: example_platform_def)
  have x: "exchanges_code (snd (snd (oauth2callback_handler example_platform example_config
      example_api \<lparr>q_error = None, q_code = Some ''code-without-refresh'',
       q_state = Some state_right_secret\<rparr>)))"
    using g
    by (simp add: oauth2callback_handler_def exchange_and_save_def example_parse nullish_def
          example_config_def example_state_nonempty redirectUri_def)
  show ?thesis
    using x g
      callback_without_refresh_token [OF x _ g]
    by simp
qed

lemma succeeded_callback:
  assumes "oauth2callback_handler P C api q = (outcome, api', io)" and "succeeded outcome"
  shows "\<exists>code raw st tok.
           q_code q = Some code \<and> q_state q = Some raw \<and> JSON_parse P raw = Inr st \<and>
           setupToken C = Some tok \<and>
           exchange_and_save P C api tok code = (outcome, api', io)"
  using assms
  by (auto simp: oauth2callback_handler_def split: option.splits sum.splits if_splits)

lemma token_exchange_failed_not_succeeded: "\<not> succeeded (token_exchange_failed err)"
  by (simp add: token_exchange_failed_def split: js_error.splits)

lemma succeeded_exchange_and_save:
  assumes "exchange_and_save P C api tok code = (outcome, api', io)" and "succeeded outcome"
  shows "\<exists>creds rt email u io'.
           getToken P (googleClientId C) (googleClientSecret C) (redirectUri C) code = Inr creds \<and>
           cred_refresh_token creds = Some rt \<and>
           getProfile P (googleClientId C) (googleClientSecret C) (redirectUri C) creds = Inr email \<and>
           saveToken P api email
             \<lparr>client_id = googleClientId C, client_secret = googleClientSecret C,
              refresh_token = rt\<rparr> = (Inr u, api', io') \<and>
           io = [GetToken code, GetProfile creds] @ io'"
  using assms
  by (auto simp: exchange_and_save_def token_exchange_failed_not_succeeded
           split: sum.splits if_splits option.splits prod.splits)

text \<open>
  Claim C5. Every callback that succeeds has stored its record under the address that
  \<open>getProfile\<close>, called with the freshly exchanged credential, returned: the token map
  afterwards is the old one with that one key set to the new record, and every other
  key, the account named in the state included when it differs, is as before.
\<close>

theorem token_stored_under_confirmed_address:
  assumes "oauth2callback_handler P C api q = (outcome, api', io)" and "succeeded outcome"
  shows "\<exists>code creds rt email.
           q_code q = Some code \<and>
           getToken P (googleClientId C) (googleClientSecret C) (redirectUri C) code = Inr creds \<and>
           cred_refresh_token creds = Some rt \<and>
           getProfile P (googleClientId C) (googleClientSecret C) (redirectUri C) creds = Inr email \<and>
           tokens api' =
             AList.update email
               \<lparr>client_id = googleClientId C, client_secret = googleClientSecret C,
                refresh_token = rt\<rparr> (tokens api) \<and>
           map_of (tokens api') email =
             Some \<lparr>client_id = googleClientId C, client_secret = googleClientSecret C,
                   refresh_token = rt\<rparr> \<and>
           (\<forall>k. k \<noteq> email \<longrightarrow> map_of (tokens api') k = map_of (tokens api) k)"
proof -
  from succeeded_callback[OF assms] obtain code raw st tok where
    c: "q_code q = Some code" and
    e: "exchange_and_save P C api tok code = (outcome, api', io)"
    by blast
  from succeeded_exchange_and_save[OF e assms(2)] obtain creds rt email u io' where
    g: "getToken P (googleClientId C) (googleClientSecret C) (redirectUri C) code = Inr creds" and
    rt: "cred_refresh_token creds = Some rt" and
    p: "getProfile P (googleClientId C) (googleClientSecret C) (redirectUri C) creds = Inr email" and
    sv: "saveToken P api email
             \<lparr>client_id = googleClientId C, client_secret = googleClientSecret C,
              refresh_token = rt\<rparr> = (Inr u, api', io')"
    by blast
  have t: "tokens api' =
             AList.update email
               \<lparr>client_id = googleClientId C, client_secret = googleClientSecret C,
                refresh_token = rt\<rparr> (tokens api)"
    using saveToken_Inr(1)[OF sv] by (simp add: delete_caches_def)
  show ?thesis
    using c g rt p t by (simp add: update_conv')
qed

theorem token_stored_under_confirmed_address_witness:
  "succeeded (fst (oauth2callback_handler example_platform example_config example_api
      \<lparr>q_error = None, q_code = Some ''code-with-refresh'',
       q_state = Some state_right_secret\<rparr>)) \<and>
   get_prop (JObj [(''account'', JStr ''outliyraffiliates@gmail.com''), (''token'', JStr ''s3cret'')])
       ''account'' = JStr ''outliyraffiliates@gmail.com'' \<and>
   tokens (fst (snd (oauth2callback_handler example_platform example_config example_api
      \<lparr>q_error = None, q_code = Some ''code-with-refresh'',
       q_state = Some state_right_secret\<rparr>)))
     = [(''iamnickurban@gmail.com'', example_token)]"
proof -
  let ?q = "\<lparr>q_error = None, q_code = Some ''code-with-refresh'',
       q_state = Some state_right_secret\<rparr>"
  let ?out = "oauth2callback_handler example_platform example_config example_api ?q"
  have g: "getToken example_platform ''client-1'' ''client-secret-1''
             ''https://mcp.example.com/oauth2callback'' ''code-with-refresh''
           = Inr \<lparr>cred_refresh_token = Some ''1//refresh-new'', cred_access_token = Some ''ya29.a''\<rparr>"
    by (simp add: example_platform_def)
  have p: "getProfile example_platform ''client-1'' ''client-secret-1''
             ''https://mcp.example.com/oauth2callback''
             \<lparr>cred_refresh_token = Some ''1//refresh-new'', cred_access_token = Some ''ya29.a''\<rparr>
           = Inr ''iamnickurban@gmail.com''"
    by (simp add: example_platform_def)
  have sv: "fst (saveToken example_platform example_api ''iamnickurban@gmail.com''
             \<lparr>client_id = ''client-1'', client_secret = ''client-secret-1'',
                refresh_token = ''1//refresh-new''\<rparr>) = Inr ()"
    by (simp add: saveToken_def Let_def example_platform_def)
  have s: "succeeded (fst ?out)"
    using g p sv
    by (auto simp: oauth2callback_handler_def exchange_and_save_def example_parse nullish_def
          example_config_def example_state_nonempty redirectUri_def split: prod.splits)
  have eq: "?out = (fst ?out, fst (snd ?out), snd (snd ?out))"
    by simp
  show ?thesis
    using s g p token_stored_under_confirmed_address [OF eq s]
    by (simp add: example_config_def redirectUri_def example_api_eq example_token_def)
qed

section \<open>The flow with no setup secret configured\<close>

text \<open>
  Claim C10, as stated, fails: with \<open>SETUP_TOKEN\<close> unset, a callback that carries an
  \<open>error\<close> parameter and a parseable state is answered 400, not 403, and so is one
  that carries a parseable state and no code.
\<close>

theorem unset_secret_callback_400_counterexample:
  "setupToken unset_config = None \<and>
   JSON_parse example_platform state_right_secret
     = Inr (JObj [(''account'', JStr ''outliyraffiliates@gmail.com''), (''token'', JStr ''s3cret'')]) \<and>
   oauth2callback_handler example_platform unset_config example_api
     \<lparr>q_error = Some ''access_denied'', q_code = None, q_state = Some state_right_secret\<rparr>
     = (Responded (Send 400 ''<h1>Authorization failed</h1><p>access_denied</p>''),
        example_api, []) \<and>
   oauth2callback_handler example_platform unset_config example_api
     \<lparr>q_error = None, q_code = None, q_state = Some state_right_secret\<rparr>
     = (Responded (Send 400 ''<h1>Missing code or state</h1>''), example_api, [])"
  by (simp add: unset_config_def example_parse oauth2callback_handler_def)

text \<open>
  Claim C10, amended. With \<open>SETUP_TOKEN\<close> unset, every GET /setup request is answered
  403, whatever token it supplies, and every GET /oauth2callback request with a
  parseable state is rejected without any call and with the broker unchanged: with 403
  when it has no \<open>error\<close> parameter and a non-empty code and state, with 400 otherwise.
\<close>

theorem unset_secret_rejects:
  assumes "setupToken C = None"
  shows "setup_handler P C api sq
           = Json 403 (JObj [(''error'', JStr ''Invalid or missing setup token'')]) \<and>
         (q_state q = Some raw \<and> JSON_parse P raw = Inr st \<longrightarrow>
            snd (oauth2callback_handler P C api q) = (api, []) \<and>
            \<not> succeeded (fst (oauth2callback_handler P C api q)) \<and>
            (if \<not> truthy_str (q_error q) \<and> truthy_str (q_code q) \<and> raw \<noteq> []
             then fst (oauth2callback_handler P C api q)
                    = Responded (Send 403 ''<h1>Invalid setup token</h1>'')
             else \<exists>body. fst (oauth2callback_handler P C api q) = Responded (Send 400 body)))"
  using assms
  by (auto simp: setup_handler_def oauth2callback_handler_def
           split: option.splits sum.splits if_splits)

theorem unset_secret_rejects_witness:
  "setupToken unset_config = None \<and>
   setup_handler example_platform unset_config example_api
     \<lparr>q_token = Some ''s3cret'', q_account = Some ''iamnickurban@gmail.com''\<rparr>
     = Json 403 (JObj [(''error'', JStr ''Invalid or missing setup token'')]) \<and>
   fst (oauth2callback_handler example_platform unset_config example_api
          \<lparr>q_error = None, q_code = Some ''code-with-refresh'',
           q_state = Some state_right_secret\<rparr>)
     = Responded (Send 403 ''<h1>Invalid setup token</h1>'')"
proof -
  have h: "setupToken unset_config = None"
    by (simp add: unset_config_def)
  show ?thesis
    using h example_parse(2) example_state_nonempty(2)
      unset_secret_rejects [OF h, where P = example_platform and api = example_api
        and q = "\<lparr>q_error = None, q_code = Some ''code-with-refresh'',
                 q_state = Some state_right_secret\<rparr>"
        and raw = state_right_secret
        and sq = "\<lparr>q_token = Some ''s3cret'', q_account = Some ''iamnickurban@gmail.com''\<rparr>"]
    by simp
qed

end
